theory Spec2Isabelle
  imports Main
begin

section \<open>The application facade of \<open>aspirelt/core/app_stack.py\<close>\<close>

text \<open>
  The class \<open>Aspiration\<close> keeps a debug flag, a router, a table of exception handlers
  and a list of middleware specifications, and derives from them one composed ASGI
  application, the middleware stack. The theory embeds the constructor, the stack
  builder, the mutators, the decorator-style registration methods and the entry point.

  Router, the middleware classes and the ASGI calling convention belong to the
  framework the file imports. Calls into them are parameters of the model (the router's
  methods, the invocation of a stack). Instantiating a layer class is recorded as a
  node that keeps the class, the keyword arguments and the wrapped application, unless
  the call itself fails: \<open>cls(app=app, **options)\<close> raises \<open>TypeError\<close> when the
  options name the keyword \<open>app\<close> once more. What a class's constructor does with its
  arguments is the class's own.
\<close>

subsection \<open>Python values\<close>

text \<open>
  A key of the exception-handler table is an integer status code or an exception class
  (\<open>typing.Union[int, typing.Type[Exception]]\<close>). A class is \<open>Exception\<close> itself
  or a class derived from it, told apart by its name.
\<close>

datatype exc_type = Exception | Subclass string

datatype handler_key = Code int | Class exc_type

text \<open>
  The values that occur as keyword arguments of a layer: \<open>None\<close>, booleans, numbers,
  strings, a callable (type \<open>'h\<close>) and a table of handlers.
\<close>

datatype 'h py_value =
    PyNone
  | PyBool bool
  | PyInt int
  | PyStr string
  | PyFunc 'h
  | PyHandlers "(handler_key \<times> 'h) list"

text \<open>
  A Python dict keeps its keys in insertion order, and the builder's result depends on
  that order, so a dict is an association list. Assigning to a key that is present
  replaces the value where the key stands; a new key goes to the end.
\<close>

fun dict_setitem :: "('k \<times> 'v) list \<Rightarrow> 'k \<Rightarrow> 'v \<Rightarrow> ('k \<times> 'v) list" where
  "dict_setitem [] key v = [(key, v)]"
| "dict_setitem ((k, w) # d) key v =
     (if k = key then (k, v) # d else (k, w) # dict_setitem d key v)"

text \<open>\<open>dict(items)\<close>: a new dict filled with the items in their order.\<close>

definition dict :: "('k \<times> 'v) list \<Rightarrow> ('k \<times> 'v) list" where
  "dict items = foldl (\<lambda>d (k, v). dict_setitem d k v) [] items"

type_synonym 'h kwargs = "(string \<times> 'h py_value) list"

subsection \<open>Middleware specifications and composed applications\<close>

datatype asgi_class =
    ServerErrorMiddleware
  | ExceptionMiddleware
  | BaseHTTPMiddleware
  | UserClass string

text \<open>
  Modelled from the spec: the class \<open>Core\<close> of \<open>aspire.core\<close>, imported under the name
  \<open>Middleware\<close>, is not part of the file. The spec describes it as the value object
  MiddlewareSpec with a factory, a mapping of options and an enabled flag, and the
  builder unpacks it in that order (\<open>for cls, options, enabled in ...\<close>). The file
  builds every specification as \<open>Middleware(cls, options=...)\<close> without an enabled
  flag; the spec has such a layer take part in the chain, so the flag defaults to true.
\<close>

record 'h Core =
  cls :: asgi_class
  options :: "'h kwargs"
  enabled :: bool

definition Middleware :: "asgi_class \<Rightarrow> 'h kwargs \<Rightarrow> 'h Core" where
  "Middleware c opts = \<lparr>cls = c, options = opts, enabled = True\<rparr>"

text \<open>
  A composed application is the router, or an instance \<open>cls(app=app, **options)\<close> of a
  layer class around an application, with the options as its further keyword arguments. The stack holds the router by reference
  (\<open>app = self.router\<close>): \<open>Router_ref\<close> stands for the object in the field \<open>router\<close>
  of the application that owns the stack, so what is registered on the router later is
  seen through the stack, as in Python.
\<close>

datatype 'h asgi_app =
    Router_ref
  | Layer asgi_class "'h kwargs" "'h asgi_app"

text \<open>
  A layer receives a request and hands it to the application it wraps, so requests
  enter the layers in the order of nesting, from the outside; the router is reached
  last.
\<close>

fun layers :: "'h asgi_app \<Rightarrow> (asgi_class \<times> 'h kwargs) list" where
  "layers Router_ref = []"
| "layers (Layer c opts app) = (c, opts) # layers app"

subsection \<open>The application object\<close>

text \<open>
  The fields of \<open>Aspiration\<close>; \<open>debug_attr\<close> is the attribute \<open>_debug\<close>. The router
  is a value of the framework, of type \<open>'r\<close>. The attribute \<open>state\<close> is set once
  to a fresh \<open>State()\<close> and is not used by any method of the class.
\<close>

record ('h, 'r) Aspiration =
  debug_attr :: bool
  router :: 'r
  exception_handlers :: "(handler_key \<times> 'h) list"
  user_middleware :: "'h Core list"
  middleware_stack :: "'h asgi_app"

text \<open>The property \<open>debug\<close>.\<close>

definition debug :: "('h, 'r) Aspiration \<Rightarrow> bool" where
  "debug self = debug_attr self"

subsection \<open>Outcomes of a call\<close>

text \<open>
  The exceptions of the file: the \<open>Exception\<close> that \<open>middleware\<close> raises with a
  message (an external registration method may raise one as well), and the
  \<open>TypeError\<close> of a call that gets the keyword \<open>app\<close> twice.

  A method of the application either returns a value or raises; both leave the object in
  some state, which the outcome carries.
\<close>

datatype error = PyException string | TypeError

datatype ('a, 's) result =
    Raise (raised: error) (state_of: 's)
  | Return (returned: 'a) (state_of: 's)

subsection \<open>\<open>build_middleware_stack\<close>\<close>

text \<open>The test \<open>key in (500, Exception)\<close>.\<close>

definition catch_all :: "handler_key \<Rightarrow> bool" where
  "catch_all key = (key = Code 500 \<or> key = Class Exception)"

text \<open>
  One round of the loop over \<open>self.exception_handlers.items()\<close>; the state of the
  loop is the pair of \<open>error_handler\<close> (\<open>None\<close> at first) and the new dict
  \<open>exception_handlers\<close>.
\<close>

definition handler_step ::
  "'h option \<times> (handler_key \<times> 'h) list \<Rightarrow> handler_key \<times> 'h
     \<Rightarrow> 'h option \<times> (handler_key \<times> 'h) list" where
  "handler_step acc item =
     (case acc of (error_handler, handlers) \<Rightarrow>
      case item of (key, v) \<Rightarrow>
        if catch_all key
        then (Some v, handlers)
        else (error_handler, dict_setitem handlers key v))"

definition split_handlers ::
  "(handler_key \<times> 'h) list \<Rightarrow> 'h option \<times> (handler_key \<times> 'h) list" where
  "split_handlers table = foldl handler_step (None, []) table"

text \<open>The two fixed specifications.\<close>

definition server_errors :: "'h option \<Rightarrow> bool \<Rightarrow> 'h Core" where
  "server_errors error_handler dbg =
     Middleware ServerErrorMiddleware
       [(''handler'', case error_handler of None \<Rightarrow> PyNone | Some h \<Rightarrow> PyFunc h),
        (''debug'', PyBool dbg)]"

definition exceptions :: "(handler_key \<times> 'h) list \<Rightarrow> bool \<Rightarrow> 'h Core" where
  "exceptions handlers dbg =
     Middleware ExceptionMiddleware
       [(''handlers'', PyHandlers handlers), (''debug'', PyBool dbg)]"

text \<open>
  The call \<open>cls(app=app, **options)\<close> passes \<open>app\<close> by keyword and then every item
  of \<open>options\<close> by keyword. Python refuses the call with \<open>TypeError\<close>, before the
  class is entered, when \<open>options\<close> has the key \<open>app\<close>.
\<close>

definition repeats_app :: "'h kwargs \<Rightarrow> bool" where
  "repeats_app opts = (''app'' \<in> set (map fst opts))"

text \<open>The specifications on which the loop raises: enabled, with an option \<open>app\<close>.\<close>

abbreviation clashing :: "'h Core \<Rightarrow> bool" where
  "clashing m \<equiv> enabled m \<and> repeats_app (options m)"

text \<open>One round of the loop over \<open>reversed(middleware)\<close>.\<close>

definition wrap :: "'h asgi_app \<Rightarrow> 'h Core \<Rightarrow> error + 'h asgi_app" where
  "wrap app m =
     (if enabled m
      then (if repeats_app (options m) then Inl TypeError
            else Inr (Layer (cls m) (options m) app))
      else Inr app)"

text \<open>The loop: the first round that raises ends it.\<close>

fun wrap_all :: "'h asgi_app \<Rightarrow> 'h Core list \<Rightarrow> error + 'h asgi_app" where
  "wrap_all app [] = Inr app"
| "wrap_all app (m # ms) =
     (case wrap app m of Inl e \<Rightarrow> Inl e | Inr app' \<Rightarrow> wrap_all app' ms)"

definition build_middleware_stack :: "('h, 'r) Aspiration \<Rightarrow> error + 'h asgi_app" where
  "build_middleware_stack self =
     (let dbg = debug self;
          (error_handler, handlers) = split_handlers (exception_handlers self);
          middleware =
            [server_errors error_handler dbg] @ user_middleware self @ [exceptions handlers dbg]
      in wrap_all Router_ref (rev middleware))"

subsection \<open>Constructor and mutators\<close>

text \<open>
  The statement \<open>self.middleware_stack = self.build_middleware_stack()\<close>, with which
  the constructor and every mutator end. When the builder raises, the assignment does
  not happen and the object stays as the statements before left it.
\<close>

definition rebuild :: "('h, 'r) Aspiration \<Rightarrow> (unit, ('h, 'r) Aspiration) result" where
  "rebuild self =
     (case build_middleware_stack self of
        Inl e \<Rightarrow> Raise e self
      | Inr stack \<Rightarrow> Return () (self\<lparr>middleware_stack := stack\<rparr>))"

text \<open>
  \<open>__init__\<close>. The parameter \<open>Router\<close> is the framework's constructor of a router.
  An absent argument is \<open>None\<close>. The attribute \<open>middleware_stack\<close> does not exist
  before the last assignment; the record needs a value there, and
  \<open>build_middleware_stack\<close> does not read the field. A constructor that raises leaves
  no object.
\<close>

definition init ::
  "('rt option \<Rightarrow> 'ev option \<Rightarrow> 'ev option \<Rightarrow> 'r) \<Rightarrow> bool \<Rightarrow> 'rt option \<Rightarrow> 'h Core list option
     \<Rightarrow> (handler_key \<times> 'h) list option \<Rightarrow> 'ev option \<Rightarrow> 'ev option
     \<Rightarrow> error + ('h, 'r) Aspiration" where
  "init Router dbg routes middleware handlers on_startup on_shutdown =
     (let self =
        \<lparr>debug_attr = dbg,
         router = Router routes on_startup on_shutdown,
         exception_handlers = (case handlers of None \<Rightarrow> [] | Some d \<Rightarrow> dict d),
         user_middleware = (case middleware of None \<Rightarrow> [] | Some ms \<Rightarrow> ms),
         middleware_stack = Router_ref\<rparr>
      in case rebuild self of Raise e _ \<Rightarrow> Inl e | Return _ self \<Rightarrow> Inr self)"

text \<open>The setter of the property \<open>debug\<close>.\<close>

definition debug_setter ::
  "('h, 'r) Aspiration \<Rightarrow> bool \<Rightarrow> (unit, ('h, 'r) Aspiration) result" where
  "debug_setter self v = rebuild (self\<lparr>debug_attr := v\<rparr>)"

text \<open>
  \<open>add_middleware(middleware_class, **kwargs)\<close>; \<open>kwargs\<close> is the dict of the
  keyword arguments as the body receives it.
\<close>

definition add_middleware ::
  "('h, 'r) Aspiration \<Rightarrow> asgi_class \<Rightarrow> 'h kwargs \<Rightarrow> (unit, ('h, 'r) Aspiration) result" where
  "add_middleware self middleware_class kwargs =
     rebuild (self\<lparr>user_middleware := Middleware middleware_class kwargs # user_middleware self\<rparr>)"

definition add_exception_handler ::
  "('h, 'r) Aspiration \<Rightarrow> handler_key \<Rightarrow> 'h \<Rightarrow> (unit, ('h, 'r) Aspiration) result" where
  "add_exception_handler self exc_class_or_status_code handler =
     rebuild (self\<lparr>exception_handlers :=
                dict_setitem (exception_handlers self) exc_class_or_status_code handler\<rparr>)"

subsection \<open>Registration by decorator\<close>




text \<open>The closure that \<open>middleware("http")\<close> returns.\<close>

definition middleware_decorator ::
  "'h \<Rightarrow> ('h, 'r) Aspiration \<Rightarrow> ('h, ('h, 'r) Aspiration) result" where
  "middleware_decorator =
     (\<lambda>func self.
        case add_middleware self BaseHTTPMiddleware [(''dispatch'', PyFunc func)] of
          Raise e self \<Rightarrow> Raise e self
        | Return _ self \<Rightarrow> Return func self)"

text \<open>
  \<open>middleware(middleware_type)\<close>. The message of the exception is
  \<^verbatim>\<open>Currently only middleware("http") is supported.\<close>; the double quote is
  character \<open>0x22\<close>.
\<close>

definition only_http_message :: string where
  "only_http_message =
     ''Currently only middleware('' @ [CHR 0x22] @ ''http'' @ [CHR 0x22] @ '') is supported.''"

definition middleware ::
  "string \<Rightarrow> ('h, 'r) Aspiration
     \<Rightarrow> ('h \<Rightarrow> ('h, 'r) Aspiration \<Rightarrow> ('h, ('h, 'r) Aspiration) result, ('h, 'r) Aspiration) result" where
  "middleware middleware_type self =
     (if \<not> middleware_type = ''http''
      then Raise (PyException only_http_message) self
      else Return middleware_decorator self)"

subsection \<open>The entry point\<close>

text \<open>
  A value in the request scope is the application object or a value of the transport.
  \<open>__call__\<close> assigns \<open>scope["app"]\<close> and awaits the stack; how a composed application
  runs on a scope, a receive channel and a send channel is the framework's, given as
  the parameter \<open>run\<close>, and its outcome is the outcome of the call.
\<close>

datatype ('a, 'v) scope_value = App 'a | Val 'v

definition call ::
  "('h asgi_app \<Rightarrow> (string \<times> (('h, 'r) Aspiration, 'v) scope_value) list \<Rightarrow> 'rcv \<Rightarrow> 'snd \<Rightarrow> 'out)
     \<Rightarrow> ('h, 'r) Aspiration \<Rightarrow> (string \<times> (('h, 'r) Aspiration, 'v) scope_value) list
     \<Rightarrow> 'rcv \<Rightarrow> 'snd \<Rightarrow> 'out" where
  "call run self scope receive send =
     (let scope = dict_setitem scope ''app'' (App self)
      in run (middleware_stack self) scope receive send)"

subsection \<open>Example configurations\<close>

text \<open>
  Concrete specifications and applications on which the properties below are evaluated.
  Handlers are named by strings. The applications are written out as the objects that
  the constructor returns; the first have a router without data.
\<close>

definition m_gzip :: "string Core" where
  "m_gzip = \<lparr>cls = UserClass ''GZip'', options = [(''minimum_size'', PyInt 500)], enabled = True\<rparr>"

definition m_cors :: "string Core" where
  "m_cors = \<lparr>cls = UserClass ''CORS'', options = [], enabled = True\<rparr>"

definition m_http :: "string Core" where
  "m_http = Middleware BaseHTTPMiddleware [(''dispatch'', PyFunc ''timer'')]"

text \<open>A specification whose options name the keyword \<open>app\<close>.\<close>

definition m_proxy :: "string Core" where
  "m_proxy = Middleware (UserClass ''Proxy'') [(''app'', PyStr ''backend'')]"

definition no_router :: "unit option \<Rightarrow> unit option \<Rightarrow> unit option \<Rightarrow> unit" where
  "no_router routes on_startup on_shutdown = ()"

text \<open>\<open>Aspiration()\<close>.\<close>

definition app0 :: "(string, unit) Aspiration" where
  "app0 =
     \<lparr>debug_attr = False, router = (), exception_handlers = [], user_middleware = [],
      middleware_stack =
        Layer ServerErrorMiddleware [(''handler'', PyNone), (''debug'', PyBool False)]
          (Layer ExceptionMiddleware [(''handlers'', PyHandlers []), (''debug'', PyBool False)]
             Router_ref)\<rparr>"

text \<open>\<open>Aspiration(middleware=[m_gzip, m_cors])\<close>.\<close>

definition app2 :: "(string, unit) Aspiration" where
  "app2 =
     \<lparr>debug_attr = False, router = (), exception_handlers = [],
      user_middleware = [m_gzip, m_cors],
      middleware_stack =
        Layer ServerErrorMiddleware [(''handler'', PyNone), (''debug'', PyBool False)]
          (Layer (UserClass ''GZip'') [(''minimum_size'', PyInt 500)]
            (Layer (UserClass ''CORS'') []
              (Layer ExceptionMiddleware [(''handlers'', PyHandlers []), (''debug'', PyBool False)]
                 Router_ref)))\<rparr>"

text \<open>
  \<open>Aspiration(middleware=[m_gzip, m_cors, m_http],
  exception_handlers={404: not_found, 500: crash})\<close>.
\<close>

definition app3 :: "(string, unit) Aspiration" where
  "app3 =
     \<lparr>debug_attr = False, router = (),
      exception_handlers = [(Code 404, ''not_found''), (Code 500, ''crash'')],
      user_middleware = [m_gzip, m_cors, m_http],
      middleware_stack =
        Layer ServerErrorMiddleware [(''handler'', PyFunc ''crash''), (''debug'', PyBool False)]
          (Layer (UserClass ''GZip'') [(''minimum_size'', PyInt 500)]
            (Layer (UserClass ''CORS'') []
              (Layer BaseHTTPMiddleware [(''dispatch'', PyFunc ''timer'')]
                (Layer ExceptionMiddleware
                   [(''handlers'', PyHandlers [(Code 404, ''not_found'')]),
                    (''debug'', PyBool False)]
                   Router_ref))))\<rparr>"

text \<open>
  \<open>Aspiration(debug=True,
  exception_handlers={404: not_found, 500: crash, KeyError: missing})\<close>.
\<close>

definition app_404_500 :: "(string, unit) Aspiration" where
  "app_404_500 =
     \<lparr>debug_attr = True, router = (),
      exception_handlers =
        [(Code 404, ''not_found''), (Code 500, ''crash''),
         (Class (Subclass ''KeyError''), ''missing'')],
      user_middleware = [],
      middleware_stack =
        Layer ServerErrorMiddleware [(''handler'', PyFunc ''crash''), (''debug'', PyBool True)]
          (Layer ExceptionMiddleware
             [(''handlers'',
               PyHandlers [(Code 404, ''not_found''), (Class (Subclass ''KeyError''), ''missing'')]),
              (''debug'', PyBool True)]
             Router_ref)\<rparr>"

text \<open>
  \<open>Aspiration()\<close> after \<open>add_exception_handler(500, on_500)\<close>,
  \<open>add_exception_handler(404, not_found)\<close> and
  \<open>add_exception_handler(Exception, on_exception)\<close>, in this order.
\<close>

definition app_both :: "(string, unit) Aspiration" where
  "app_both =
     \<lparr>debug_attr = False, router = (),
      exception_handlers =
        [(Code 500, ''on_500''), (Code 404, ''not_found''), (Class Exception, ''on_exception'')],
      user_middleware = [],
      middleware_stack =
        Layer ServerErrorMiddleware
          [(''handler'', PyFunc ''on_exception''), (''debug'', PyBool False)]
          (Layer ExceptionMiddleware
             [(''handlers'', PyHandlers [(Code 404, ''not_found'')]), (''debug'', PyBool False)]
             Router_ref)\<rparr>"

text \<open>\<open>Aspiration(exception_handlers={Exception: on_exception, 500: on_500})\<close>.\<close>

definition app_two :: "(string, unit) Aspiration" where
  "app_two =
     \<lparr>debug_attr = False, router = (),
      exception_handlers = [(Class Exception, ''on_exception''), (Code 500, ''on_500'')],
      user_middleware = [],
      middleware_stack =
        Layer ServerErrorMiddleware [(''handler'', PyFunc ''on_500''), (''debug'', PyBool False)]
          (Layer ExceptionMiddleware [(''handlers'', PyHandlers []), (''debug'', PyBool False)]
             Router_ref)\<rparr>"



definition list_router ::
  "unit option \<Rightarrow> unit option \<Rightarrow> unit option \<Rightarrow> (string \<times> string) list" where
  "list_router routes on_startup on_shutdown = []"

text \<open>\<open>Aspiration()\<close> on this router.\<close>

definition app_routes :: "(string, (string \<times> string) list) Aspiration" where
  "app_routes =
     \<lparr>debug_attr = False, router = [], exception_handlers = [], user_middleware = [],
      middleware_stack =
        Layer ServerErrorMiddleware [(''handler'', PyNone), (''debug'', PyBool False)]
          (Layer ExceptionMiddleware [(''handlers'', PyHandlers []), (''debug'', PyBool False)]
             Router_ref)\<rparr>"

section \<open>Properties\<close>

subsection \<open>The loop over the specifications\<close>

lemma wrap_all_outcome:
  "wrap_all app ms =
     (if list_ex clashing ms then Inl TypeError
      else Inr (foldl (\<lambda>a m. if enabled m then Layer (cls m) (options m) a else a) app ms))"
  by (induction ms arbitrary: app) (auto simp: wrap_def)

lemma not_clashing_server_errors: "\<not> clashing (server_errors eh dbg)"
  by (simp add: server_errors_def Middleware_def repeats_app_def)

lemma not_clashing_exceptions: "\<not> clashing (exceptions hs dbg)"
  by (simp add: exceptions_def Middleware_def repeats_app_def)

lemma build_middleware_stack_outcome:
  "build_middleware_stack self =
     (if list_ex clashing (user_middleware self) then Inl TypeError
      else Inr (foldr (\<lambda>m a. if enabled m then Layer (cls m) (options m) a else a)
             (server_errors (fst (split_handlers (exception_handlers self))) (debug self)
                # user_middleware self
                @ [exceptions (snd (split_handlers (exception_handlers self))) (debug self)])
             Router_ref))"
proof -
  have "list_ex clashing
      (rev (server_errors eh dbg # user_middleware self @ [exceptions hs dbg])) =
      list_ex clashing (user_middleware self)" for eh :: "'a option" and hs dbg
    using not_clashing_server_errors[of eh dbg] not_clashing_exceptions[of hs dbg]
    by (auto simp: list_ex_iff)
  then show ?thesis
    unfolding build_middleware_stack_def Let_def wrap_all_outcome
    by (simp add: case_prod_beta foldr_conv_foldl)
qed

lemma layers_foldr_wrap:
  "layers (foldr (\<lambda>m a. if enabled m then Layer (cls m) (options m) a else a) ms app) =
     map (\<lambda>m. (cls m, options m)) (filter enabled ms) @ layers app"
  by (induction ms) simp_all

lemma build_middleware_stack_layers:
  assumes "build_middleware_stack self = Inr stack"
  shows "layers stack =
     [(ServerErrorMiddleware,
       [(''handler'', case fst (split_handlers (exception_handlers self)) of
                        None \<Rightarrow> PyNone | Some h \<Rightarrow> PyFunc h),
        (''debug'', PyBool (debug self))])]
     @ map (\<lambda>m. (cls m, options m)) (filter enabled (user_middleware self))
     @ [(ExceptionMiddleware,
         [(''handlers'', PyHandlers (snd (split_handlers (exception_handlers self)))),
          (''debug'', PyBool (debug self))])]"
proof -
  from assms have "stack =
      foldr (\<lambda>m a. if enabled m then Layer (cls m) (options m) a else a)
             (server_errors (fst (split_handlers (exception_handlers self))) (debug self)
                # user_middleware self
                @ [exceptions (snd (split_handlers (exception_handlers self))) (debug self)])
             Router_ref"
    by (simp add: build_middleware_stack_outcome split: if_splits)
  then show ?thesis
    by (simp only: layers_foldr_wrap)
       (simp add: server_errors_def exceptions_def Middleware_def)
qed

lemma build_middleware_stack_returns:
  "(\<exists>stack. build_middleware_stack self = Inr stack) = (\<not> list_ex clashing (user_middleware self))"
  by (simp add: build_middleware_stack_outcome)

lemma build_middleware_stack_raises:
  "build_middleware_stack self = Inl e \<Longrightarrow> e = TypeError \<and> list_ex clashing (user_middleware self)"
  by (simp add: build_middleware_stack_outcome split: if_splits)

lemma build_middleware_stack_update [simp]:
  "build_middleware_stack (self\<lparr>middleware_stack := s\<rparr>) = build_middleware_stack self"
  "build_middleware_stack (self\<lparr>router := r\<rparr>) = build_middleware_stack self"
  by (simp_all add: build_middleware_stack_def debug_def)

subsection \<open>The rebuilding statement\<close>

lemma rebuild_Return:
  "rebuild self = Return u self' \<Longrightarrow>
   self' = self\<lparr>middleware_stack := middleware_stack self'\<rparr>
   \<and> build_middleware_stack self = Inr (middleware_stack self')"
  by (auto simp: rebuild_def split: sum.splits)

lemma rebuild_Raise:
  "rebuild self = Raise e self' \<Longrightarrow> self' = self \<and> build_middleware_stack self = Inl e"
  by (auto simp: rebuild_def split: sum.splits)

lemma rebuild_returns:
  "\<not> list_ex clashing (user_middleware self) \<Longrightarrow>
   \<exists>stack. build_middleware_stack self = Inr stack
     \<and> rebuild self = Return () (self\<lparr>middleware_stack := stack\<rparr>)"
  by (simp add: rebuild_def build_middleware_stack_outcome)

lemma rebuild_consistent:
  "rebuild self = Return u self' \<Longrightarrow> build_middleware_stack self' = Inr (middleware_stack self')"
proof -
  assume r: "rebuild self = Return u self'"
  from rebuild_Return[OF r] have "self' = self\<lparr>middleware_stack := middleware_stack self'\<rparr>"
    and b: "build_middleware_stack self = Inr (middleware_stack self')" by blast+
  then have "build_middleware_stack self' = build_middleware_stack self"
    by (metis build_middleware_stack_update(1))
  with b show ?thesis by simp
qed

subsection \<open>The partition of the handler table\<close>

lemma dict_setitem_fresh: "key \<notin> fst ` set d \<Longrightarrow> dict_setitem d key v = d @ [(key, v)]"
  by (induction d key v rule: dict_setitem.induct) auto

lemma handler_step_pair:
  "handler_step (eh, hs) (k, h) =
     (if catch_all k then (Some h, hs) else (eh, dict_setitem hs k h))"
  by (simp add: handler_step_def)

lemma fst_foldl_handler_step:
  "fst (foldl handler_step (eh, hs) table) =
     (case filter (\<lambda>(k, h). catch_all k) table of [] \<Rightarrow> eh | x # xs \<Rightarrow> Some (snd (last (x # xs))))"
proof (induction table arbitrary: eh hs)
  case Nil
  then show ?case by simp
next
  case (Cons item table)
  obtain k h where item: "item = (k, h)" by (cases item)
  show ?case
    by (simp add: item handler_step_pair Cons.IH split: list.splits)
qed

lemma snd_foldl_handler_step:
  "distinct (map fst hs @ map fst table) \<Longrightarrow>
   snd (foldl handler_step (eh, hs) table) = hs @ filter (\<lambda>(k, h). \<not> catch_all k) table"
proof (induction table arbitrary: eh hs)
  case Nil
  then show ?case by simp
next
  case (Cons item table)
  obtain k h where item: "item = (k, h)" by (cases item)
  show ?case
  proof (cases "catch_all k")
    case True
    with Cons show ?thesis by (simp add: item handler_step_pair)
  next
    case False
    have k: "k \<notin> fst ` set hs" using Cons.prems by (auto simp: item)
    have "distinct (map fst (hs @ [(k, h)]) @ map fst table)"
      using Cons.prems by (auto simp: item)
    then show ?thesis
      using Cons.IH[of "hs @ [(k, h)]" eh] False
      by (simp add: item handler_step_pair dict_setitem_fresh[OF k])
  qed
qed

lemma split_handlers_distinct:
  assumes "distinct (map fst table)"
  shows "split_handlers table =
     (case filter (\<lambda>(k, h). catch_all k) table of [] \<Rightarrow> None | x # xs \<Rightarrow> Some (snd (last (x # xs))),
      filter (\<lambda>(k, h). \<not> catch_all k) table)"
proof -
  have "fst (split_handlers table) =
      (case filter (\<lambda>(k, h). catch_all k) table of [] \<Rightarrow> None | x # xs \<Rightarrow> Some (snd (last (x # xs))))"
    unfolding split_handlers_def by (rule fst_foldl_handler_step)
  moreover have "snd (split_handlers table) = filter (\<lambda>(k, h). \<not> catch_all k) table"
    unfolding split_handlers_def using snd_foldl_handler_step[of "[]" table None] assms by simp
  ultimately show ?thesis by (simp add: prod_eq_iff)
qed

lemma map_of_filter_key:
  "map_of (filter (\<lambda>(k, h). P k) table) key = (if P key then map_of table key else None)"
  by (induction table) auto

lemma catch_all_cases: "catch_all k \<Longrightarrow> k = Code 500 \<or> k = Class Exception"
  by (simp add: catch_all_def)

lemma map_of_dict_setitem: "map_of (dict_setitem d key v) = (map_of d)(key \<mapsto> v)"
  by (induction d key v rule: dict_setitem.induct) (auto simp: fun_eq_iff)

subsection \<open>The handler table is a dict\<close>

text \<open>
  The table of an application comes from \<open>dict\<close> and \<open>dict_setitem\<close> alone, so
  no key stands in it twice.
\<close>

lemma keys_dict_setitem:
  "fst ` set (dict_setitem d key v) = insert key (fst ` set d)"
  by (induction d key v rule: dict_setitem.induct) auto

lemma distinct_dict_setitem:
  "distinct (map fst d) \<Longrightarrow> distinct (map fst (dict_setitem d key v))"
proof (induction d key v rule: dict_setitem.induct)
  case (1 key v)
  then show ?case by simp
next
  case (2 k w d key v)
  then show ?case
    by (auto simp: keys_dict_setitem)
qed

lemma distinct_foldl_dict_setitem:
  "distinct (map fst d) \<Longrightarrow>
   distinct (map fst (foldl (\<lambda>d (k, v). dict_setitem d k v) d items))"
  by (induction items arbitrary: d) (auto simp: distinct_dict_setitem)

lemma foldl_dict_setitem_distinct:
  "distinct (map fst (d @ items)) \<Longrightarrow>
   foldl (\<lambda>d (k, v). dict_setitem d k v) d items = d @ items"
proof (induction items arbitrary: d)
  case Nil
  then show ?case by simp
next
  case (Cons item items)
  obtain k v where item: "item = (k, v)" by (cases item)
  have fresh: "k \<notin> fst ` set d"
    using Cons.prems by (auto simp: item)
  have "distinct (map fst ((d @ [(k, v)]) @ items))"
    using Cons.prems by (simp add: item)
  then show ?case
    using Cons.IH[of "d @ [(k, v)]"] by (simp add: item dict_setitem_fresh[OF fresh])
qed

text \<open>Copying a dict gives the same items in the same order.\<close>

lemma dict_of_dict: "distinct (map fst d) \<Longrightarrow> dict d = d"
  using foldl_dict_setitem_distinct[of "[]" d] by (simp add: dict_def)

lemma distinct_dict: "distinct (map fst (dict items))"
  by (simp add: dict_def distinct_foldl_dict_setitem)

subsection \<open>What the rebuilding statement leaves alone\<close>

lemma rebuild_fields:
  "debug_attr (state_of (rebuild self)) = debug_attr self"
  "router (state_of (rebuild self)) = router self"
  "exception_handlers (state_of (rebuild self)) = exception_handlers self"
  "user_middleware (state_of (rebuild self)) = user_middleware self"
  by (simp_all add: rebuild_def split: sum.splits)

lemma rebuild_cases:
  "(\<exists>stack. build_middleware_stack self = Inr stack
       \<and> rebuild self = Return () (self\<lparr>middleware_stack := stack\<rparr>))
   \<or> (build_middleware_stack self = Inl TypeError \<and> rebuild self = Raise TypeError self)"
  by (simp add: rebuild_def build_middleware_stack_outcome)

lemma distinct_exception_handlers_init:
  "init Router dbg routes mws handlers on_startup on_shutdown = Inr self \<Longrightarrow>
   distinct (map fst (exception_handlers self))"
proof -
  let ?pre = "\<lparr>debug_attr = dbg, router = Router routes on_startup on_shutdown,
      exception_handlers = (case handlers of None \<Rightarrow> [] | Some d \<Rightarrow> dict d),
      user_middleware = (case mws of None \<Rightarrow> [] | Some ms \<Rightarrow> ms),
      middleware_stack = Router_ref\<rparr>"
  assume "init Router dbg routes mws handlers on_startup on_shutdown = Inr self"
  then have "state_of (rebuild ?pre) = self"
    by (auto simp: init_def Let_def split: result.splits)
  then have "exception_handlers self = exception_handlers ?pre"
    using rebuild_fields(3)[of ?pre] by simp
  then show ?thesis
    by (simp add: distinct_dict split: option.splits)
qed

lemma distinct_exception_handlers_add:
  "distinct (map fst (exception_handlers self)) \<Longrightarrow>
   distinct (map fst (exception_handlers (state_of (add_exception_handler self key h))))"
  by (simp add: add_exception_handler_def rebuild_fields distinct_dict_setitem)

subsection \<open>The example applications are what the constructor returns\<close>

lemmas example_specs = m_gzip_def m_cors_def m_http_def m_proxy_def Middleware_def

lemmas build_defs = init_def rebuild_def build_middleware_stack_def split_handlers_def
  handler_step_def catch_all_def debug_def server_errors_def exceptions_def wrap_def
  repeats_app_def dict_def Let_def

lemma init_app0: "init no_router False None None None None None = Inr app0"
  by (simp add: app0_def build_defs example_specs no_router_def)

lemma init_app2:
  "init no_router False None (Some [m_gzip, m_cors]) None None None = Inr app2"
  by (simp add: app2_def build_defs example_specs no_router_def)

lemma init_app3:
  "init no_router False None (Some [m_gzip, m_cors, m_http])
     (Some [(Code 404, ''not_found''), (Code 500, ''crash'')]) None None = Inr app3"
  by (simp add: app3_def build_defs example_specs no_router_def)

lemma init_app_404_500:
  "init no_router True None None
     (Some [(Code 404, ''not_found''), (Code 500, ''crash''),
            (Class (Subclass ''KeyError''), ''missing'')]) None None = Inr app_404_500"
  by (simp add: app_404_500_def build_defs example_specs no_router_def)

lemma init_app_two:
  "init no_router False None None
     (Some [(Class Exception, ''on_exception''), (Code 500, ''on_500'')]) None None = Inr app_two"
  by (simp add: app_two_def build_defs example_specs no_router_def)

lemma init_app_routes: "init list_router False None None None None None = Inr app_routes"
  by (simp add: app_routes_def build_defs example_specs list_router_def)

lemma add_exception_handler_app_both:
  "\<exists>s1 s2. add_exception_handler app0 (Code 500) ''on_500'' = Return () s1
     \<and> add_exception_handler s1 (Code 404) ''not_found'' = Return () s2
     \<and> add_exception_handler s2 (Class Exception) ''on_exception'' = Return () app_both"
  by (simp add: app0_def app_both_def add_exception_handler_def build_defs example_specs)

subsection \<open>What a returning constructor or mutator leaves\<close>

lemma init_Inr:
  assumes "init Router dbg routes mws handlers on_startup on_shutdown = Inr s"
  shows "build_middleware_stack s = Inr (middleware_stack s)"
    and "debug_attr s = dbg"
    and "exception_handlers s = (case handlers of None \<Rightarrow> [] | Some d \<Rightarrow> dict d)"
    and "user_middleware s = (case mws of None \<Rightarrow> [] | Some ms \<Rightarrow> ms)"
    and "router s = Router routes on_startup on_shutdown"
proof -
  let ?pre = "\<lparr>debug_attr = dbg, router = Router routes on_startup on_shutdown,
      exception_handlers = (case handlers of None \<Rightarrow> [] | Some d \<Rightarrow> dict d),
      user_middleware = (case mws of None \<Rightarrow> [] | Some ms \<Rightarrow> ms),
      middleware_stack = Router_ref\<rparr>"
  from assms obtain u where r: "rebuild ?pre = Return u s"
    by (auto simp: init_def Let_def split: result.splits)
  from rebuild_consistent[OF r] show "build_middleware_stack s = Inr (middleware_stack s)" .
  from r have st: "state_of (rebuild ?pre) = s" by simp
  show "debug_attr s = dbg"
    using rebuild_fields(1)[of ?pre] by (simp add: st)
  show "exception_handlers s = (case handlers of None \<Rightarrow> [] | Some d \<Rightarrow> dict d)"
    using rebuild_fields(3)[of ?pre] by (simp add: st)
  show "user_middleware s = (case mws of None \<Rightarrow> [] | Some ms \<Rightarrow> ms)"
    using rebuild_fields(4)[of ?pre] by (simp add: st)
  show "router s = Router routes on_startup on_shutdown"
    using rebuild_fields(2)[of ?pre] by (simp add: st)
qed

lemma init_returns:
  "\<not> list_ex clashing (case mws of None \<Rightarrow> [] | Some ms \<Rightarrow> ms) \<Longrightarrow>
   \<exists>s. init Router dbg routes mws handlers on_startup on_shutdown = Inr s"
  by (simp add: init_def Let_def rebuild_def build_middleware_stack_outcome)

lemma debug_setter_Return:
  assumes "debug_setter self v = Return u s"
  shows "build_middleware_stack s = Inr (middleware_stack s)"
    and "debug_attr s = v"
    and "exception_handlers s = exception_handlers self"
    and "user_middleware s = user_middleware self"
    and "router s = router self"
proof -
  from assms have r: "rebuild (self\<lparr>debug_attr := v\<rparr>) = Return u s"
    by (simp add: debug_setter_def)
  from rebuild_consistent[OF r] show "build_middleware_stack s = Inr (middleware_stack s)" .
  from r have st: "state_of (rebuild (self\<lparr>debug_attr := v\<rparr>)) = s" by simp
  show "debug_attr s = v"
    using rebuild_fields(1)[of "self\<lparr>debug_attr := v\<rparr>"] by (simp add: st)
  show "exception_handlers s = exception_handlers self"
    using rebuild_fields(3)[of "self\<lparr>debug_attr := v\<rparr>"] by (simp add: st)
  show "user_middleware s = user_middleware self"
    using rebuild_fields(4)[of "self\<lparr>debug_attr := v\<rparr>"] by (simp add: st)
  show "router s = router self"
    using rebuild_fields(2)[of "self\<lparr>debug_attr := v\<rparr>"] by (simp add: st)
qed

lemma add_exception_handler_Return:
  assumes "add_exception_handler self key h = Return u s"
  shows "build_middleware_stack s = Inr (middleware_stack s)"
    and "debug_attr s = debug_attr self"
    and "exception_handlers s = dict_setitem (exception_handlers self) key h"
    and "user_middleware s = user_middleware self"
    and "router s = router self"
proof -
  let ?pre = "self\<lparr>exception_handlers := dict_setitem (exception_handlers self) key h\<rparr>"
  from assms have r: "rebuild ?pre = Return u s"
    by (simp add: add_exception_handler_def)
  from rebuild_consistent[OF r] show "build_middleware_stack s = Inr (middleware_stack s)" .
  from r have st: "state_of (rebuild ?pre) = s" by simp
  show "debug_attr s = debug_attr self"
    using rebuild_fields(1)[of ?pre] by (simp add: st)
  show "exception_handlers s = dict_setitem (exception_handlers self) key h"
    using rebuild_fields(3)[of ?pre] by (simp add: st)
  show "user_middleware s = user_middleware self"
    using rebuild_fields(4)[of ?pre] by (simp add: st)
  show "router s = router self"
    using rebuild_fields(2)[of ?pre] by (simp add: st)
qed

lemma add_middleware_Return:
  assumes "add_middleware self c kw = Return u s"
  shows "build_middleware_stack s = Inr (middleware_stack s)"
    and "debug_attr s = debug_attr self"
    and "exception_handlers s = exception_handlers self"
    and "user_middleware s = Middleware c kw # user_middleware self"
    and "router s = router self"
proof -
  let ?pre = "self\<lparr>user_middleware := Middleware c kw # user_middleware self\<rparr>"
  from assms have r: "rebuild ?pre = Return u s"
    by (simp add: add_middleware_def)
  from rebuild_consistent[OF r] show "build_middleware_stack s = Inr (middleware_stack s)" .
  from r have st: "state_of (rebuild ?pre) = s" by simp
  show "debug_attr s = debug_attr self"
    using rebuild_fields(1)[of ?pre] by (simp add: st)
  show "exception_handlers s = exception_handlers self"
    using rebuild_fields(3)[of ?pre] by (simp add: st)
  show "user_middleware s = Middleware c kw # user_middleware self"
    using rebuild_fields(4)[of ?pre] by (simp add: st)
  show "router s = router self"
    using rebuild_fields(2)[of ?pre] by (simp add: st)
qed

lemma debug_setter_returns:
  "\<not> list_ex clashing (user_middleware self) \<Longrightarrow> \<exists>s. debug_setter self v = Return () s"
  using rebuild_returns[of "self\<lparr>debug_attr := v\<rparr>"] by (auto simp: debug_setter_def)

lemma add_exception_handler_returns:
  "\<not> list_ex clashing (user_middleware self) \<Longrightarrow>
   \<exists>s. add_exception_handler self key h = Return () s"
  using rebuild_returns[of "self\<lparr>exception_handlers :=
      dict_setitem (exception_handlers self) key h\<rparr>"]
  by (auto simp: add_exception_handler_def)

lemma add_middleware_returns:
  "\<not> repeats_app kw \<Longrightarrow> \<not> list_ex clashing (user_middleware self) \<Longrightarrow>
   \<exists>s. add_middleware self c kw = Return () s"
  using rebuild_returns[of "self\<lparr>user_middleware := Middleware c kw # user_middleware self\<rparr>"]
  by (auto simp: add_middleware_def Middleware_def)

lemma add_middleware_raises:
  "repeats_app kw \<Longrightarrow>
   add_middleware self c kw =
     Raise TypeError (self\<lparr>user_middleware := Middleware c kw # user_middleware self\<rparr>)"
  by (simp add: add_middleware_def rebuild_def build_middleware_stack_outcome Middleware_def)

subsection \<open>The decorators\<close>



lemma middleware_decorator_Return:
  "middleware_decorator func self = Return f s \<Longrightarrow>
   f = func \<and> add_middleware self BaseHTTPMiddleware [(''dispatch'', PyFunc func)] = Return () s"
  by (auto simp: middleware_decorator_def split: result.splits)

lemma not_repeats_app_dispatch: "\<not> repeats_app [(''dispatch'', PyFunc func)]"
  by (simp add: repeats_app_def)

lemma middleware_decorator_returns:
  "\<not> list_ex clashing (user_middleware self) \<Longrightarrow>
   \<exists>s. middleware_decorator func self = Return func s"
  using add_middleware_returns[where kw = "[(''dispatch'', PyFunc func)]" and self = self
      and c = BaseHTTPMiddleware, OF not_repeats_app_dispatch]
  by (auto simp: middleware_decorator_def)



section \<open>The claims\<close>




text \<open>
  Claim C2. When the constructor, the setter of \<open>debug\<close>, \<open>add_exception_handler\<close>
  or \<open>add_middleware\<close> returns, the stored \<open>middleware_stack\<close> is what
  \<open>build_middleware_stack\<close> gives on the object as it then is, whose debug flag,
  handler table and middleware list are the updated ones. The stack is a function of
  these three alone: the router (\<open>r\<close>) and the stack held before (\<open>t\<close>) play no
  part. Each of the four returns when no enabled specification of the list it builds
  from has an option named \<open>app\<close>.
\<close>

theorem middleware_stack_consistent:
  "(init Router dbg routes mws handlers on_startup on_shutdown = Inr s0 \<longrightarrow>
      build_middleware_stack s0 = Inr (middleware_stack s0)
      \<and> debug s0 = dbg
      \<and> exception_handlers s0 = (case handlers of None \<Rightarrow> [] | Some d \<Rightarrow> dict d)
      \<and> user_middleware s0 = (case mws of None \<Rightarrow> [] | Some ms \<Rightarrow> ms))
   \<and> (debug_setter self v = Return u1 s1 \<longrightarrow>
        build_middleware_stack s1 = Inr (middleware_stack s1)
        \<and> debug s1 = v
        \<and> exception_handlers s1 = exception_handlers self
        \<and> user_middleware s1 = user_middleware self)
   \<and> (add_exception_handler self key h = Return u2 s2 \<longrightarrow>
        build_middleware_stack s2 = Inr (middleware_stack s2)
        \<and> debug s2 = debug self
        \<and> exception_handlers s2 = dict_setitem (exception_handlers self) key h
        \<and> user_middleware s2 = user_middleware self)
   \<and> (add_middleware self c kw = Return u3 s3 \<longrightarrow>
        build_middleware_stack s3 = Inr (middleware_stack s3)
        \<and> debug s3 = debug self
        \<and> exception_handlers s3 = exception_handlers self
        \<and> user_middleware s3 = Middleware c kw # user_middleware self)
   \<and> build_middleware_stack self =
       build_middleware_stack
         \<lparr>debug_attr = debug self, router = r, exception_handlers = exception_handlers self,
          user_middleware = user_middleware self, middleware_stack = t\<rparr>
   \<and> (\<not> list_ex clashing (case mws of None \<Rightarrow> [] | Some ms \<Rightarrow> ms) \<longrightarrow>
        (\<exists>s. init Router dbg routes mws handlers on_startup on_shutdown = Inr s))
   \<and> (\<not> list_ex clashing (user_middleware self) \<longrightarrow>
        (\<exists>s. debug_setter self v = Return () s)
        \<and> (\<exists>s. add_exception_handler self key h = Return () s))
   \<and> (\<not> repeats_app kw \<and> \<not> list_ex clashing (user_middleware self) \<longrightarrow>
        (\<exists>s. add_middleware self c kw = Return () s))"
proof -
  have 0: "build_middleware_stack s0 = Inr (middleware_stack s0)
      \<and> debug s0 = dbg
      \<and> exception_handlers s0 = (case handlers of None \<Rightarrow> [] | Some d \<Rightarrow> dict d)
      \<and> user_middleware s0 = (case mws of None \<Rightarrow> [] | Some ms \<Rightarrow> ms)"
    if "init Router dbg routes mws handlers on_startup on_shutdown = Inr s0"
    using init_Inr[OF that] by (simp add: debug_def)
  have 1: "build_middleware_stack s1 = Inr (middleware_stack s1)
        \<and> debug s1 = v
        \<and> exception_handlers s1 = exception_handlers self
        \<and> user_middleware s1 = user_middleware self"
    if "debug_setter self v = Return u1 s1"
    using debug_setter_Return[OF that] by (simp add: debug_def)
  have 2: "build_middleware_stack s2 = Inr (middleware_stack s2)
        \<and> debug s2 = debug self
        \<and> exception_handlers s2 = dict_setitem (exception_handlers self) key h
        \<and> user_middleware s2 = user_middleware self"
    if "add_exception_handler self key h = Return u2 s2"
    using add_exception_handler_Return[OF that] by (simp add: debug_def)
  have 3: "build_middleware_stack s3 = Inr (middleware_stack s3)
        \<and> debug s3 = debug self
        \<and> exception_handlers s3 = exception_handlers self
        \<and> user_middleware s3 = Middleware c kw # user_middleware self"
    if "add_middleware self c kw = Return u3 s3"
    using add_middleware_Return[OF that] by (simp add: debug_def)
  have 4: "build_middleware_stack self =
       build_middleware_stack
         \<lparr>debug_attr = debug self, router = r, exception_handlers = exception_handlers self,
          user_middleware = user_middleware self, middleware_stack = t\<rparr>"
    by (simp add: build_middleware_stack_def debug_def)
  from 0 1 2 3 4 init_returns[of mws Router dbg routes handlers on_startup on_shutdown]
    debug_setter_returns[of self v] add_exception_handler_returns[of self key h]
    add_middleware_returns[of kw self c]
  show ?thesis by blast
qed

theorem middleware_stack_consistent_witness:
  "init no_router False None (Some [m_gzip, m_cors, m_http])
     (Some [(Code 404, ''not_found''), (Code 500, ''crash'')]) None None = Inr app3
   \<and> build_middleware_stack app3 = Inr (middleware_stack app3)
   \<and> \<not> list_ex clashing (user_middleware app3)
   \<and> \<not> repeats_app [(''max_age'', PyInt 60) :: string \<times> string py_value]
   \<and> (\<exists>s. debug_setter app3 True = Return () s
         \<and> build_middleware_stack s = Inr (middleware_stack s) \<and> debug s = True)
   \<and> (\<exists>s. add_exception_handler app3 (Code 403) ''forbidden'' = Return () s
         \<and> build_middleware_stack s = Inr (middleware_stack s)
         \<and> exception_handlers s =
             [(Code 404, ''not_found''), (Code 500, ''crash''), (Code 403, ''forbidden'')])
   \<and> (\<exists>s. add_middleware app3 (UserClass ''Session'') [(''max_age'', PyInt 60)] = Return () s
         \<and> build_middleware_stack s = Inr (middleware_stack s)
         \<and> user_middleware s =
             Middleware (UserClass ''Session'') [(''max_age'', PyInt 60)] # [m_gzip, m_cors, m_http])"
proof -
  note at_app3 = middleware_stack_consistent[where self = app3 and v = True
      and key = "Code 403" and h = "''forbidden''" and c = "UserClass ''Session''"
      and kw = "[(''max_age'', PyInt 60)]" and Router = no_router and dbg = False
      and routes = None and mws = "Some [m_gzip, m_cors, m_http]"
      and handlers = "Some [(Code 404, ''not_found''), (Code 500, ''crash'')]"
      and on_startup = None and on_shutdown = None]
  note on_init = at_app3[THEN conjunct1, THEN mp]
  note on_debug = at_app3[THEN conjunct2, THEN conjunct1, THEN mp]
  note on_handler = at_app3[THEN conjunct2, THEN conjunct2, THEN conjunct1, THEN mp]
  note on_middleware =
    at_app3[THEN conjunct2, THEN conjunct2, THEN conjunct2, THEN conjunct1, THEN mp]
  note returns =
    at_app3[THEN conjunct2, THEN conjunct2, THEN conjunct2, THEN conjunct2, THEN conjunct2,
      THEN conjunct2, THEN conjunct1, THEN mp]
  note returns_middleware =
    at_app3[THEN conjunct2, THEN conjunct2, THEN conjunct2, THEN conjunct2, THEN conjunct2,
      THEN conjunct2, THEN conjunct2, THEN mp]
  have ok: "\<not> list_ex clashing (user_middleware app3)"
    by (simp add: app3_def example_specs repeats_app_def)
  have kw: "\<not> repeats_app [(''max_age'', PyInt 60) :: string \<times> string py_value]"
    by (simp add: repeats_app_def)
  have tbl: "exception_handlers app3 = [(Code 404, ''not_found''), (Code 500, ''crash'')]"
    and um: "user_middleware app3 = [m_gzip, m_cors, m_http]"
    by (simp_all add: app3_def)
  have 0: "build_middleware_stack app3 = Inr (middleware_stack app3)"
    using on_init[OF init_app3] by simp
  from returns[OF ok] obtain s1 s2
    where s1: "debug_setter app3 True = Return () s1"
      and s2: "add_exception_handler app3 (Code 403) ''forbidden'' = Return () s2"
    by auto
  have 1: "build_middleware_stack s1 = Inr (middleware_stack s1) \<and> debug s1 = True"
    using on_debug[OF s1] by simp
  have 2: "build_middleware_stack s2 = Inr (middleware_stack s2)
      \<and> exception_handlers s2 =
          [(Code 404, ''not_found''), (Code 500, ''crash''), (Code 403, ''forbidden'')]"
    using on_handler[OF s2] by (simp add: tbl)
  from returns_middleware[OF conjI[OF kw ok]] obtain s3
    where s3: "add_middleware app3 (UserClass ''Session'') [(''max_age'', PyInt 60)] = Return () s3"
    by auto
  have 3: "build_middleware_stack s3 = Inr (middleware_stack s3)
      \<and> user_middleware s3 =
          Middleware (UserClass ''Session'') [(''max_age'', PyInt 60)] # [m_gzip, m_cors, m_http]"
    using on_middleware[OF s3] by (simp add: um)
  from s1 1 have e1: "\<exists>s. debug_setter app3 True = Return () s
         \<and> build_middleware_stack s = Inr (middleware_stack s) \<and> debug s = True"
    by blast
  from s2 2 have e2: "\<exists>s. add_exception_handler app3 (Code 403) ''forbidden'' = Return () s
         \<and> build_middleware_stack s = Inr (middleware_stack s)
         \<and> exception_handlers s =
             [(Code 404, ''not_found''), (Code 500, ''crash''), (Code 403, ''forbidden'')]"
    by blast
  from s3 3 have e3: "\<exists>s. add_middleware app3 (UserClass ''Session'') [(''max_age'', PyInt 60)] = Return () s
         \<and> build_middleware_stack s = Inr (middleware_stack s)
         \<and> user_middleware s =
             Middleware (UserClass ''Session'') [(''max_age'', PyInt 60)] # [m_gzip, m_cors, m_http]"
    by blast
  from init_app3 0 ok kw e1 e2 e3 show ?thesis
    by (intro conjI)
qed




text \<open>
  Claim C4, amended. For a handler table (a dict, so its keys are distinct) the builder
  passes to the server-error layer, as option \<open>handler\<close>, the first component of
  \<open>split_handlers\<close>, and to the typed-exception layer, as option \<open>handlers\<close>, the
  second. The second component is the table without its entries under a catch-all key
  (\<open>500\<close> or \<open>Exception\<close>), in the table's order: a lookup under a catch-all key
  finds nothing, and a lookup under any other key finds what the table holds. The first
  component is the handler of the last entry under a catch-all key in the table's
  order, \<open>None\<close> when there is none; when the table has one entry under a catch-all
  key, its handler is the error handler.
\<close>

theorem handler_table_partition:
  "distinct (map fst (exception_handlers self)) \<Longrightarrow>
   (build_middleware_stack self = Inr stack \<longrightarrow>
      layers stack =
        [(ServerErrorMiddleware,
          [(''handler'', case fst (split_handlers (exception_handlers self)) of
                           None \<Rightarrow> PyNone | Some h \<Rightarrow> PyFunc h),
           (''debug'', PyBool (debug self))])]
        @ map (\<lambda>m. (cls m, options m)) (filter enabled (user_middleware self))
        @ [(ExceptionMiddleware,
            [(''handlers'', PyHandlers (snd (split_handlers (exception_handlers self)))),
             (''debug'', PyBool (debug self))])])
   \<and> snd (split_handlers (exception_handlers self)) =
       filter (\<lambda>(k, h). \<not> catch_all k) (exception_handlers self)
   \<and> map_of (snd (split_handlers (exception_handlers self))) key =
       (if catch_all key then None else map_of (exception_handlers self) key)
   \<and> fst (split_handlers (exception_handlers self)) =
       (case filter (\<lambda>(k, h). catch_all k) (exception_handlers self) of
          [] \<Rightarrow> None
        | x # xs \<Rightarrow> Some (snd (last (x # xs))))
   \<and> (filter (\<lambda>(k, h). catch_all k) (exception_handlers self) = [(key, handler)] \<longrightarrow>
        fst (split_handlers (exception_handlers self)) = Some handler
        \<and> map_of (snd (split_handlers (exception_handlers self))) key = None)"
proof -
  assume d: "distinct (map fst (exception_handlers self))"
  note sp = split_handlers_distinct[OF d]
  have 1: "layers stack =
        [(ServerErrorMiddleware,
          [(''handler'', case fst (split_handlers (exception_handlers self)) of
                           None \<Rightarrow> PyNone | Some h \<Rightarrow> PyFunc h),
           (''debug'', PyBool (debug self))])]
        @ map (\<lambda>m. (cls m, options m)) (filter enabled (user_middleware self))
        @ [(ExceptionMiddleware,
            [(''handlers'', PyHandlers (snd (split_handlers (exception_handlers self)))),
             (''debug'', PyBool (debug self))])]"
    if "build_middleware_stack self = Inr stack"
    by (rule build_middleware_stack_layers[OF that])
  have 2: "snd (split_handlers (exception_handlers self)) =
       filter (\<lambda>(k, h). \<not> catch_all k) (exception_handlers self)"
    by (simp add: sp)
  have 3: "map_of (snd (split_handlers (exception_handlers self))) key =
       (if catch_all key then None else map_of (exception_handlers self) key)"
    by (simp only: 2 map_of_filter_key) simp
  have 4: "fst (split_handlers (exception_handlers self)) =
       (case filter (\<lambda>(k, h). catch_all k) (exception_handlers self) of
          [] \<Rightarrow> None
        | x # xs \<Rightarrow> Some (snd (last (x # xs))))"
    by (simp add: sp)
  have 5: "fst (split_handlers (exception_handlers self)) = Some handler
        \<and> map_of (snd (split_handlers (exception_handlers self))) key = None"
    if f: "filter (\<lambda>(k, h). catch_all k) (exception_handlers self) = [(key, handler)]"
  proof -
    have "(key, handler) \<in> set (filter (\<lambda>(k, h). catch_all k) (exception_handlers self))"
      by (simp only: f) simp
    then have "catch_all key" by simp
    then show ?thesis using 3 4 by (simp add: f)
  qed
  show ?thesis
    by (intro conjI impI)
       (erule 1, rule 2, rule 3, rule 4, erule 5[THEN conjunct1], erule 5[THEN conjunct2])
qed

theorem handler_table_partition_witness:
  "distinct (map fst (exception_handlers app_404_500))
   \<and> filter (\<lambda>(k, h). catch_all k) (exception_handlers app_404_500) = [(Code 500, ''crash'')]
   \<and> build_middleware_stack app_404_500 = Inr (middleware_stack app_404_500)
   \<and> layers (middleware_stack app_404_500) =
       [(ServerErrorMiddleware, [(''handler'', PyFunc ''crash''), (''debug'', PyBool True)]),
        (ExceptionMiddleware,
         [(''handlers'', PyHandlers [(Code 404, ''not_found''),
                                     (Class (Subclass ''KeyError''), ''missing'')]),
          (''debug'', PyBool True)])]"
proof -
  have tbl: "exception_handlers app_404_500 =
      [(Code 404, ''not_found''), (Code 500, ''crash''), (Class (Subclass ''KeyError''), ''missing'')]"
    by (simp add: app_404_500_def)
  have d: "distinct (map fst (exception_handlers app_404_500))"
    by (simp add: tbl)
  have f: "filter (\<lambda>(k, h). catch_all k) (exception_handlers app_404_500) = [(Code 500, ''crash'')]"
    by (simp add: tbl catch_all_def)
  have um: "user_middleware app_404_500 = []" and dbg: "debug app_404_500 = True"
    by (simp_all add: app_404_500_def debug_def)
  have b: "build_middleware_stack app_404_500 = Inr (middleware_stack app_404_500)"
    using init_Inr(1)[OF init_app_404_500] .
  note at_app = handler_table_partition[OF d, where key = "Code 500" and handler = "''crash''"
      and stack = "middleware_stack app_404_500"]
  note lay = at_app[THEN conjunct1, THEN mp, OF b]
  note typed = at_app[THEN conjunct2, THEN conjunct1]
  note single = at_app[THEN conjunct2, THEN conjunct2, THEN conjunct2, THEN conjunct2, THEN mp,
      OF f, THEN conjunct1]
  have l: "layers (middleware_stack app_404_500) =
       [(ServerErrorMiddleware, [(''handler'', PyFunc ''crash''), (''debug'', PyBool True)]),
        (ExceptionMiddleware,
         [(''handlers'', PyHandlers [(Code 404, ''not_found''),
                                     (Class (Subclass ''KeyError''), ''missing'')]),
          (''debug'', PyBool True)])]"
    by (simp only: lay typed single) (simp add: um dbg tbl catch_all_def)
  from d f b l show ?thesis
    by (intro conjI)
qed

text \<open>
  Claim C4 as stated has a handler registered under a catch-all key become the error
  handler. In \<open>Aspiration(exception_handlers={Exception: on_exception, 500: on_500})\<close>
  the handler \<open>on_exception\<close> stands under the catch-all key \<open>Exception\<close>, yet the
  server-error layer gets \<open>on_500\<close>, the handler of the later catch-all entry, and
  \<open>on_exception\<close> is in no layer.
\<close>

theorem handler_table_partition_counterexample:
  "init no_router False None None
     (Some [(Class Exception, ''on_exception''), (Code 500, ''on_500'')]) None None = Inr app_two
   \<and> map_of (exception_handlers app_two) (Class Exception) = Some ''on_exception''
   \<and> catch_all (Class Exception)
   \<and> build_middleware_stack app_two =
       Inr (Layer ServerErrorMiddleware [(''handler'', PyFunc ''on_500''), (''debug'', PyBool False)]
         (Layer ExceptionMiddleware [(''handlers'', PyHandlers []), (''debug'', PyBool False)]
            Router_ref))"
  by (simp add: app_two_def build_defs example_specs no_router_def)

text \<open>
  Claim C5. A specification that is not enabled adds no layer: building from a user
  list \<open>xs @ m # ys\<close> with \<open>m\<close> disabled has the outcome of building from
  \<open>xs @ ys\<close>, so the layers of \<open>xs\<close> and \<open>ys\<close> keep their order and nesting.
  In general the outcome is the one of building from the enabled specifications alone.
\<close>

theorem disabled_spec_skipped:
  "(\<not> enabled m \<longrightarrow>
      build_middleware_stack (self\<lparr>user_middleware := xs @ m # ys\<rparr>) =
      build_middleware_stack (self\<lparr>user_middleware := xs @ ys\<rparr>))
   \<and> build_middleware_stack (self\<lparr>user_middleware := xs @ m\<lparr>enabled := False\<rparr> # ys\<rparr>) =
      build_middleware_stack (self\<lparr>user_middleware := xs @ ys\<rparr>)
   \<and> build_middleware_stack self =
      build_middleware_stack (self\<lparr>user_middleware := filter enabled (user_middleware self)\<rparr>)"
proof (intro conjI impI)
  assume "\<not> enabled m"
  then show "build_middleware_stack (self\<lparr>user_middleware := xs @ m # ys\<rparr>) =
      build_middleware_stack (self\<lparr>user_middleware := xs @ ys\<rparr>)"
    by (simp add: build_middleware_stack_outcome debug_def)
next
  show "build_middleware_stack (self\<lparr>user_middleware := xs @ m\<lparr>enabled := False\<rparr> # ys\<rparr>) =
      build_middleware_stack (self\<lparr>user_middleware := xs @ ys\<rparr>)"
    by (simp add: build_middleware_stack_outcome debug_def)
next
  have c: "list_ex clashing (filter enabled ms) = list_ex clashing ms" for ms :: "'a Core list"
    by (induction ms) auto
  have f: "foldr (\<lambda>m a. if enabled m then Layer (cls m) (options m) a else a)
        (filter enabled ms) app =
      foldr (\<lambda>m a. if enabled m then Layer (cls m) (options m) a else a) ms app"
    for ms :: "'a Core list" and app
    by (induction ms) simp_all
  show "build_middleware_stack self =
      build_middleware_stack (self\<lparr>user_middleware := filter enabled (user_middleware self)\<rparr>)"
    by (simp add: build_middleware_stack_outcome debug_def c f)
qed

theorem disabled_spec_skipped_witness:
  "\<not> enabled (m_cors\<lparr>enabled := False\<rparr>)
   \<and> build_middleware_stack (app0\<lparr>user_middleware := [m_gzip] @ m_cors\<lparr>enabled := False\<rparr> # [m_http]\<rparr>) =
      Inr (Layer ServerErrorMiddleware [(''handler'', PyNone), (''debug'', PyBool False)]
        (Layer (UserClass ''GZip'') [(''minimum_size'', PyInt 500)]
          (Layer BaseHTTPMiddleware [(''dispatch'', PyFunc ''timer'')]
            (Layer ExceptionMiddleware [(''handlers'', PyHandlers []), (''debug'', PyBool False)]
               Router_ref))))"
proof -
  have hyp: "\<not> enabled (m_cors\<lparr>enabled := False\<rparr>)" by simp
  have without: "build_middleware_stack (app0\<lparr>user_middleware := [m_gzip] @ [m_http]\<rparr>) =
      Inr (Layer ServerErrorMiddleware [(''handler'', PyNone), (''debug'', PyBool False)]
        (Layer (UserClass ''GZip'') [(''minimum_size'', PyInt 500)]
          (Layer BaseHTTPMiddleware [(''dispatch'', PyFunc ''timer'')]
            (Layer ExceptionMiddleware [(''handlers'', PyHandlers []), (''debug'', PyBool False)]
               Router_ref))))"
    by (simp add: app0_def build_defs example_specs)
  note skipped = disabled_spec_skipped[where m = "m_cors\<lparr>enabled := False\<rparr>" and self = app0
      and xs = "[m_gzip]" and ys = "[m_http]", THEN conjunct1, THEN mp, OF hyp]
  have "build_middleware_stack (app0\<lparr>user_middleware := [m_gzip] @ m_cors\<lparr>enabled := False\<rparr> # [m_http]\<rparr>) =
      Inr (Layer ServerErrorMiddleware [(''handler'', PyNone), (''debug'', PyBool False)]
        (Layer (UserClass ''GZip'') [(''minimum_size'', PyInt 500)]
          (Layer BaseHTTPMiddleware [(''dispatch'', PyFunc ''timer'')]
            (Layer ExceptionMiddleware [(''handlers'', PyHandlers []), (''debug'', PyBool False)]
               Router_ref))))"
    by (simp only: skipped without)
  with hyp show ?thesis
    by (intro conjI)
qed

text \<open>
  Claim C6, amended. The builder gives the debug flag to both fixed layers, so setting
  \<open>debug\<close> from false to true changes the option \<open>debug\<close> of the server-error
  layer and of the typed-exception layer, and nothing else: the classes of the layers
  and their order, every user layer with its options, the option \<open>handler\<close> of the
  server-error layer and the option \<open>handlers\<close> of the typed-exception layer are
  those of the stack built with \<open>debug\<close> false. The setter returns with the rebuilt
  stack exactly when a stack can be built with \<open>debug\<close> false, that is, when no
  enabled user specification has an option named \<open>app\<close>.
\<close>

theorem debug_toggle_frame:
  "(build_middleware_stack (self\<lparr>debug_attr := False\<rparr>) = Inr s0 \<longrightarrow>
      layers s0 =
        [(ServerErrorMiddleware,
          [(''handler'', case fst (split_handlers (exception_handlers self)) of
                           None \<Rightarrow> PyNone | Some h \<Rightarrow> PyFunc h),
           (''debug'', PyBool False)])]
        @ map (\<lambda>m. (cls m, options m)) (filter enabled (user_middleware self))
        @ [(ExceptionMiddleware,
            [(''handlers'', PyHandlers (snd (split_handlers (exception_handlers self)))),
             (''debug'', PyBool False)])])
   \<and> (debug_setter (self\<lparr>debug_attr := False\<rparr>) True = Return u s1 \<longrightarrow>
        layers (middleware_stack s1) =
          [(ServerErrorMiddleware,
            [(''handler'', case fst (split_handlers (exception_handlers self)) of
                             None \<Rightarrow> PyNone | Some h \<Rightarrow> PyFunc h),
             (''debug'', PyBool True)])]
          @ map (\<lambda>m. (cls m, options m)) (filter enabled (user_middleware self))
          @ [(ExceptionMiddleware,
              [(''handlers'', PyHandlers (snd (split_handlers (exception_handlers self)))),
               (''debug'', PyBool True)])])
   \<and> (build_middleware_stack (self\<lparr>debug_attr := False\<rparr>) = Inr s0
        \<and> debug_setter (self\<lparr>debug_attr := False\<rparr>) True = Return u s1 \<longrightarrow>
        map fst (layers (middleware_stack s1)) = map fst (layers s0))
   \<and> (\<exists>s. build_middleware_stack (self\<lparr>debug_attr := False\<rparr>) = Inr s) =
       (\<exists>s. debug_setter (self\<lparr>debug_attr := False\<rparr>) True = Return () s)
   \<and> (\<exists>s. build_middleware_stack (self\<lparr>debug_attr := False\<rparr>) = Inr s) =
       (\<not> list_ex clashing (user_middleware self))"
proof -
  have 1: "layers s0 =
        [(ServerErrorMiddleware,
          [(''handler'', case fst (split_handlers (exception_handlers self)) of
                           None \<Rightarrow> PyNone | Some h \<Rightarrow> PyFunc h),
           (''debug'', PyBool False)])]
        @ map (\<lambda>m. (cls m, options m)) (filter enabled (user_middleware self))
        @ [(ExceptionMiddleware,
            [(''handlers'', PyHandlers (snd (split_handlers (exception_handlers self)))),
             (''debug'', PyBool False)])]"
    if "build_middleware_stack (self\<lparr>debug_attr := False\<rparr>) = Inr s0" for s0
    using build_middleware_stack_layers[OF that] by (simp add: debug_def)
  have 2: "layers (middleware_stack s1) =
          [(ServerErrorMiddleware,
            [(''handler'', case fst (split_handlers (exception_handlers self)) of
                             None \<Rightarrow> PyNone | Some h \<Rightarrow> PyFunc h),
             (''debug'', PyBool True)])]
          @ map (\<lambda>m. (cls m, options m)) (filter enabled (user_middleware self))
          @ [(ExceptionMiddleware,
              [(''handlers'', PyHandlers (snd (split_handlers (exception_handlers self)))),
               (''debug'', PyBool True)])]"
    if r: "debug_setter (self\<lparr>debug_attr := False\<rparr>) True = Return u s1" for u s1
  proof -
    note a = debug_setter_Return[OF r]
    from build_middleware_stack_layers[OF a(1)] show ?thesis
      by (simp add: a(2-4) debug_def)
  qed
  have 3: "map fst (layers (middleware_stack s1)) = map fst (layers s0)"
    if "build_middleware_stack (self\<lparr>debug_attr := False\<rparr>) = Inr s0
        \<and> debug_setter (self\<lparr>debug_attr := False\<rparr>) True = Return u s1"
  proof -
    from that have b: "build_middleware_stack (self\<lparr>debug_attr := False\<rparr>) = Inr s0"
      and r: "debug_setter (self\<lparr>debug_attr := False\<rparr>) True = Return u s1"
      by simp_all
    show ?thesis
      by (simp only: 1[OF b] 2[OF r]) simp
  qed
  have 5: "(\<exists>s. build_middleware_stack (self\<lparr>debug_attr := False\<rparr>) = Inr s) =
       (\<not> list_ex clashing (user_middleware self))"
    using build_middleware_stack_returns[of "self\<lparr>debug_attr := False\<rparr>"] by simp
  have "(\<exists>s. debug_setter (self\<lparr>debug_attr := False\<rparr>) True = Return () s) =
       (\<not> list_ex clashing (user_middleware self))"
    by (auto simp: debug_setter_def rebuild_def build_middleware_stack_outcome)
  with 5 have 4: "(\<exists>s. build_middleware_stack (self\<lparr>debug_attr := False\<rparr>) = Inr s) =
       (\<exists>s. debug_setter (self\<lparr>debug_attr := False\<rparr>) True = Return () s)"
    by simp
  show ?thesis
    by (intro conjI impI) (erule 1, erule 2, erule 3, rule 4, rule 5)
qed

theorem debug_toggle_frame_witness:
  "build_middleware_stack (app3\<lparr>debug_attr := False\<rparr>) = Inr (middleware_stack app3)
   \<and> layers (middleware_stack app3) =
       [(ServerErrorMiddleware, [(''handler'', PyFunc ''crash''), (''debug'', PyBool False)]),
        (UserClass ''GZip'', [(''minimum_size'', PyInt 500)]),
        (UserClass ''CORS'', []),
        (BaseHTTPMiddleware, [(''dispatch'', PyFunc ''timer'')]),
        (ExceptionMiddleware,
         [(''handlers'', PyHandlers [(Code 404, ''not_found'')]), (''debug'', PyBool False)])]
   \<and> (\<exists>s. debug_setter (app3\<lparr>debug_attr := False\<rparr>) True = Return () s
        \<and> layers (middleware_stack s) =
            [(ServerErrorMiddleware, [(''handler'', PyFunc ''crash''), (''debug'', PyBool True)]),
             (UserClass ''GZip'', [(''minimum_size'', PyInt 500)]),
             (UserClass ''CORS'', []),
             (BaseHTTPMiddleware, [(''dispatch'', PyFunc ''timer'')]),
             (ExceptionMiddleware,
              [(''handlers'', PyHandlers [(Code 404, ''not_found'')]), (''debug'', PyBool True)])])"
proof -
  have same: "app3\<lparr>debug_attr := False\<rparr> = app3"
    by (simp add: app3_def)
  have b: "build_middleware_stack (app3\<lparr>debug_attr := False\<rparr>) = Inr (middleware_stack app3)"
    using init_Inr(1)[OF init_app3] by (simp only: same)
  have tbl: "split_handlers (exception_handlers app3) = (Some ''crash'', [(Code 404, ''not_found'')])"
    by (simp add: app3_def split_handlers_def handler_step_def catch_all_def)
  have um: "user_middleware app3 = [m_gzip, m_cors, m_http]"
    by (simp add: app3_def)
  note at_app3 = debug_toggle_frame[where self = app3 and ?s0.0 = "middleware_stack app3"]
  note before = at_app3[THEN conjunct1, THEN mp, OF b]
  note after = at_app3[THEN conjunct2, THEN conjunct1, THEN mp]
  note both = at_app3[THEN conjunct2, THEN conjunct2, THEN conjunct2, THEN conjunct1]
  have l0: "layers (middleware_stack app3) =
       [(ServerErrorMiddleware, [(''handler'', PyFunc ''crash''), (''debug'', PyBool False)]),
        (UserClass ''GZip'', [(''minimum_size'', PyInt 500)]),
        (UserClass ''CORS'', []),
        (BaseHTTPMiddleware, [(''dispatch'', PyFunc ''timer'')]),
        (ExceptionMiddleware,
         [(''handlers'', PyHandlers [(Code 404, ''not_found'')]), (''debug'', PyBool False)])]"
    by (simp only: before) (simp add: tbl um example_specs)
  from b have "\<exists>s. build_middleware_stack (app3\<lparr>debug_attr := False\<rparr>) = Inr s"
    by (rule exI)
  then have "\<exists>s. debug_setter (app3\<lparr>debug_attr := False\<rparr>) True = Return () s"
    by (simp only: both)
  then obtain s where s: "debug_setter (app3\<lparr>debug_attr := False\<rparr>) True = Return () s" ..
  have l1: "layers (middleware_stack s) =
            [(ServerErrorMiddleware, [(''handler'', PyFunc ''crash''), (''debug'', PyBool True)]),
             (UserClass ''GZip'', [(''minimum_size'', PyInt 500)]),
             (UserClass ''CORS'', []),
             (BaseHTTPMiddleware, [(''dispatch'', PyFunc ''timer'')]),
             (ExceptionMiddleware,
              [(''handlers'', PyHandlers [(Code 404, ''not_found'')]), (''debug'', PyBool True)])]"
    by (simp only: after[OF s]) (simp add: tbl um example_specs)
  have e: "\<exists>s. debug_setter (app3\<lparr>debug_attr := False\<rparr>) True = Return () s
        \<and> layers (middleware_stack s) =
            [(ServerErrorMiddleware, [(''handler'', PyFunc ''crash''), (''debug'', PyBool True)]),
             (UserClass ''GZip'', [(''minimum_size'', PyInt 500)]),
             (UserClass ''CORS'', []),
             (BaseHTTPMiddleware, [(''dispatch'', PyFunc ''timer'')]),
             (ExceptionMiddleware,
              [(''handlers'', PyHandlers [(Code 404, ''not_found'')]), (''debug'', PyBool True)])]"
    by (rule exI[of _ s]) (intro conjI s l1)
  from b l0 e show ?thesis
    by (intro conjI)
qed

text \<open>
  Claim C6 as stated has every layer but the server-error layer keep its configuration
  options. On the application built with no arguments the typed-exception layer, the
  only layer inside the server-error layer, carries \<open>debug\<close> false before the setter
  runs and \<open>debug\<close> true after.
\<close>

theorem debug_toggle_counterexample:
  "debug app0 = False
   \<and> tl (layers (middleware_stack app0)) =
       [(ExceptionMiddleware, [(''handlers'', PyHandlers []), (''debug'', PyBool False)])]
   \<and> debug_setter app0 True =
       Return ()
         (app0\<lparr>debug_attr := True,
               middleware_stack :=
                 Layer ServerErrorMiddleware [(''handler'', PyNone), (''debug'', PyBool True)]
                   (Layer ExceptionMiddleware
                      [(''handlers'', PyHandlers []), (''debug'', PyBool True)] Router_ref)\<rparr>)
   \<and> tl (layers (middleware_stack (state_of (debug_setter app0 True)))) =
       [(ExceptionMiddleware, [(''handlers'', PyHandlers []), (''debug'', PyBool True)])]
   \<and> tl (layers (middleware_stack (state_of (debug_setter app0 True))))
       \<noteq> tl (layers (middleware_stack app0))"
  by (simp add: app0_def debug_setter_def build_defs example_specs)

text \<open>
  Claim C7. \<open>middleware(middleware_type)\<close> raises for every \<open>middleware_type\<close>
  other than \<open>"http"\<close>, leaving the application as it was and returning no
  decorator. For \<open>"http"\<close> it returns the decorator. Whenever the decorator, applied
  to a function, returns, a \<open>BaseHTTPMiddleware\<close> specification with the function as
  option \<open>dispatch\<close> stands at the front of the user middleware, and the stored
  stack, rebuilt from the object, has the \<open>BaseHTTPMiddleware\<close> layer with that
  function directly inside the server-error layer; the decorator returns when no enabled
  specification of the list has an option named \<open>app\<close>.
\<close>

theorem middleware_only_http:
  "(middleware_type \<noteq> ''http'' \<longrightarrow>
      middleware middleware_type self = Raise (PyException only_http_message) self)
   \<and> middleware ''http'' self = Return middleware_decorator self
   \<and> (middleware_decorator func s0 = Return f s1 \<longrightarrow>
        user_middleware s1 =
          \<lparr>cls = BaseHTTPMiddleware, options = [(''dispatch'', PyFunc func)], enabled = True\<rparr>
            # user_middleware s0
        \<and> build_middleware_stack s1 = Inr (middleware_stack s1)
        \<and> layers (middleware_stack s1) =
            [(ServerErrorMiddleware,
              [(''handler'', case fst (split_handlers (exception_handlers s0)) of
                               None \<Rightarrow> PyNone | Some h \<Rightarrow> PyFunc h),
               (''debug'', PyBool (debug s0))]),
             (BaseHTTPMiddleware, [(''dispatch'', PyFunc func)])]
            @ map (\<lambda>m. (cls m, options m)) (filter enabled (user_middleware s0))
            @ [(ExceptionMiddleware,
                [(''handlers'', PyHandlers (snd (split_handlers (exception_handlers s0)))),
                 (''debug'', PyBool (debug s0))])])
   \<and> (\<not> list_ex clashing (user_middleware s0) \<longrightarrow>
        (\<exists>s. middleware_decorator func s0 = Return func s))"
proof -
  have 1: "middleware middleware_type self = Raise (PyException only_http_message) self"
    if "middleware_type \<noteq> ''http''"
    using that by (simp add: middleware_def)
  have 2: "middleware ''http'' self = Return middleware_decorator self"
    by (simp add: middleware_def)
  have 3: "user_middleware s1 =
          \<lparr>cls = BaseHTTPMiddleware, options = [(''dispatch'', PyFunc func)], enabled = True\<rparr>
            # user_middleware s0
        \<and> build_middleware_stack s1 = Inr (middleware_stack s1)
        \<and> layers (middleware_stack s1) =
            [(ServerErrorMiddleware,
              [(''handler'', case fst (split_handlers (exception_handlers s0)) of
                               None \<Rightarrow> PyNone | Some h \<Rightarrow> PyFunc h),
               (''debug'', PyBool (debug s0))]),
             (BaseHTTPMiddleware, [(''dispatch'', PyFunc func)])]
            @ map (\<lambda>m. (cls m, options m)) (filter enabled (user_middleware s0))
            @ [(ExceptionMiddleware,
                [(''handlers'', PyHandlers (snd (split_handlers (exception_handlers s0)))),
                 (''debug'', PyBool (debug s0))])]"
    if r: "middleware_decorator func s0 = Return f s1"
  proof -
    from middleware_decorator_Return[OF r]
    have "add_middleware s0 BaseHTTPMiddleware [(''dispatch'', PyFunc func)] = Return () s1"
      by simp
    note a = add_middleware_Return[OF this]
    have um: "user_middleware s1 =
          \<lparr>cls = BaseHTTPMiddleware, options = [(''dispatch'', PyFunc func)], enabled = True\<rparr>
            # user_middleware s0"
      by (simp add: a(4) Middleware_def)
    have l: "layers (middleware_stack s1) =
            [(ServerErrorMiddleware,
              [(''handler'', case fst (split_handlers (exception_handlers s0)) of
                               None \<Rightarrow> PyNone | Some h \<Rightarrow> PyFunc h),
               (''debug'', PyBool (debug s0))]),
             (BaseHTTPMiddleware, [(''dispatch'', PyFunc func)])]
            @ map (\<lambda>m. (cls m, options m)) (filter enabled (user_middleware s0))
            @ [(ExceptionMiddleware,
                [(''handlers'', PyHandlers (snd (split_handlers (exception_handlers s0)))),
                 (''debug'', PyBool (debug s0))])]"
      using build_middleware_stack_layers[OF a(1)]
      by (simp add: a(2-4) debug_def Middleware_def)
    from um a(1) l show ?thesis
      by (intro conjI)
  qed
  have 4: "\<exists>s. middleware_decorator func s0 = Return func s"
    if "\<not> list_ex clashing (user_middleware s0)"
    using that by (rule middleware_decorator_returns)
  show ?thesis
    by (intro conjI impI)
       (erule 1, rule 2, erule 3[THEN conjunct1], erule 3[THEN conjunct2, THEN conjunct1],
        erule 3[THEN conjunct2, THEN conjunct2], erule 4)
qed

theorem middleware_only_http_witness:
  "''websocket'' \<noteq> ''http''
   \<and> middleware ''websocket'' app0 = Raise (PyException only_http_message) app0
   \<and> \<not> list_ex clashing (user_middleware app2)
   \<and> (\<exists>s. middleware_decorator ''timer'' app2 = Return ''timer'' s
        \<and> user_middleware s = [m_http, m_gzip, m_cors]
        \<and> layers (middleware_stack s) =
            [(ServerErrorMiddleware, [(''handler'', PyNone), (''debug'', PyBool False)]),
             (BaseHTTPMiddleware, [(''dispatch'', PyFunc ''timer'')]),
             (UserClass ''GZip'', [(''minimum_size'', PyInt 500)]),
             (UserClass ''CORS'', []),
             (ExceptionMiddleware, [(''handlers'', PyHandlers []), (''debug'', PyBool False)])])"
proof -
  have ne: "''websocket'' \<noteq> ''http''" by simp
  note raises = middleware_only_http[where middleware_type = "''websocket''" and self = app0,
      THEN conjunct1, THEN mp, OF ne]
  have ok: "\<not> list_ex clashing (user_middleware app2)"
    by (simp add: app2_def example_specs repeats_app_def)
  note at_app2 = middleware_only_http[where ?s0.0 = app2 and func = "''timer''"]
  note returns = at_app2[THEN conjunct2, THEN conjunct2, THEN conjunct2, THEN mp, OF ok]
  note registered = at_app2[THEN conjunct2, THEN conjunct2, THEN conjunct1, THEN mp]
  from returns obtain s where s: "middleware_decorator ''timer'' app2 = Return ''timer'' s" ..
  have tbl: "split_handlers (exception_handlers app2) = (None, [])"
    by (simp add: app2_def split_handlers_def)
  have um0: "user_middleware app2 = [m_gzip, m_cors]" and dbg: "debug app2 = False"
    by (simp_all add: app2_def debug_def)
  have um: "user_middleware s = [m_http, m_gzip, m_cors]"
    by (simp only: registered[OF s, THEN conjunct1]) (simp add: um0 example_specs)
  have l: "layers (middleware_stack s) =
            [(ServerErrorMiddleware, [(''handler'', PyNone), (''debug'', PyBool False)]),
             (BaseHTTPMiddleware, [(''dispatch'', PyFunc ''timer'')]),
             (UserClass ''GZip'', [(''minimum_size'', PyInt 500)]),
             (UserClass ''CORS'', []),
             (ExceptionMiddleware, [(''handlers'', PyHandlers []), (''debug'', PyBool False)])]"
    by (simp only: registered[OF s, THEN conjunct2, THEN conjunct2])
       (simp add: tbl um0 dbg example_specs)
  have e: "\<exists>s. middleware_decorator ''timer'' app2 = Return ''timer'' s
        \<and> user_middleware s = [m_http, m_gzip, m_cors]
        \<and> layers (middleware_stack s) =
            [(ServerErrorMiddleware, [(''handler'', PyNone), (''debug'', PyBool False)]),
             (BaseHTTPMiddleware, [(''dispatch'', PyFunc ''timer'')]),
             (UserClass ''GZip'', [(''minimum_size'', PyInt 500)]),
             (UserClass ''CORS'', []),
             (ExceptionMiddleware, [(''handlers'', PyHandlers []), (''debug'', PyBool False)])]"
    by (rule exI[of _ s]) (intro conjI s um l)
  from ne raises ok e show ?thesis
    by (intro conjI)
qed



text \<open>
  Claim C9. \<open>__call__\<close> runs the stored middleware stack on the scope in which the
  key \<open>"app"\<close> holds the application itself and every other key holds what it held,
  and on the receive and send channels it was given.
\<close>

theorem call_injects_app:
  "call run self scope receive send =
     run (middleware_stack self) (dict_setitem scope ''app'' (App self)) receive send
   \<and> map_of (dict_setitem scope ''app'' (App self)) = (map_of scope)(''app'' \<mapsto> App self)"
  by (simp add: call_def map_of_dict_setitem)

text \<open>
  Claim C10. Both \<open>500\<close> and the class \<open>Exception\<close> are catch-all keys. When the
  table has an entry under each, \<open>(k1, h1)\<close> before \<open>(k2, h2)\<close> in iteration order,
  neither key is in the typed table, the error handler is \<open>h2\<close>, and \<open>h1\<close> is
  in no layer: building has the outcome of building from the table without the entry
  \<open>(k1, h1)\<close>, and whenever a stack is built (which is when no enabled user
  specification has an option named \<open>app\<close>), its server-error layer has \<open>h2\<close>
  and its typed-exception layer the table without both entries.
\<close>

theorem two_catch_all_keys:
  "exception_handlers self = xs @ (k1, h1) # ys @ (k2, h2) # zs \<Longrightarrow>
   catch_all k1 \<Longrightarrow> catch_all k2 \<Longrightarrow>
   distinct (map fst (exception_handlers self)) \<Longrightarrow>
   split_handlers (exception_handlers self) = (Some h2, xs @ ys @ zs)
   \<and> map_of (xs @ ys @ zs) (Code 500) = None
   \<and> map_of (xs @ ys @ zs) (Class Exception) = None
   \<and> build_middleware_stack self =
       build_middleware_stack (self\<lparr>exception_handlers := xs @ ys @ (k2, h2) # zs\<rparr>)
   \<and> (build_middleware_stack self = Inr stack \<longrightarrow>
        layers stack =
          [(ServerErrorMiddleware, [(''handler'', PyFunc h2), (''debug'', PyBool (debug self))])]
          @ map (\<lambda>m. (cls m, options m)) (filter enabled (user_middleware self))
          @ [(ExceptionMiddleware,
              [(''handlers'', PyHandlers (xs @ ys @ zs)), (''debug'', PyBool (debug self))])])
   \<and> (\<exists>stack. build_middleware_stack self = Inr stack) =
       (\<not> list_ex clashing (user_middleware self))"
proof -
  assume tbl: "exception_handlers self = xs @ (k1, h1) # ys @ (k2, h2) # zs"
    and c1: "catch_all k1" and c2: "catch_all k2"
    and d: "distinct (map fst (exception_handlers self))"
  from d have ne: "k1 \<noteq> k2" by (auto simp: tbl)
  have other: "\<not> catch_all k" if "(k, h) \<in> set (xs @ ys @ zs)" for k h
  proof
    assume "catch_all k"
    then have "k = k1 \<or> k = k2"
      using c1 c2 ne by (auto dest!: catch_all_cases)
    moreover have "k \<noteq> k1" "k \<noteq> k2"
      using d that by (auto simp: tbl image_iff)
    ultimately show False by simp
  qed
  have keep: "filter (\<lambda>(k, h). \<not> catch_all k) us = us" if "set us \<subseteq> set (xs @ ys @ zs)" for us
    using that other by (fastforce simp: filter_id_conv)
  have drop: "filter (\<lambda>(k, h). catch_all k) us = []" if "set us \<subseteq> set (xs @ ys @ zs)" for us
    using that other by (fastforce simp: filter_empty_conv)
  have parts: "set xs \<subseteq> set (xs @ ys @ zs)" "set ys \<subseteq> set (xs @ ys @ zs)"
    "set zs \<subseteq> set (xs @ ys @ zs)"
    by auto
  note fs = parts[THEN keep] parts[THEN drop]
  have dt: "distinct (map fst (xs @ (k1, h1) # ys @ (k2, h2) # zs))"
    using d by (simp only: tbl)
  have "split_handlers (xs @ (k1, h1) # ys @ (k2, h2) # zs) = (Some h2, xs @ ys @ zs)"
    by (simp add: split_handlers_distinct[OF dt] c1 c2 fs)
  then have sp: "split_handlers (exception_handlers self) = (Some h2, xs @ ys @ zs)"
    by (simp only: tbl)
  have d': "distinct (map fst (xs @ ys @ (k2, h2) # zs))"
    using dt by auto
  have sp': "split_handlers (xs @ ys @ (k2, h2) # zs) = (Some h2, xs @ ys @ zs)"
    by (simp add: split_handlers_distinct[OF d'] c2 fs)
  have none: "map_of (xs @ ys @ zs) k = None" if "catch_all k" for k
  proof (rule ccontr)
    assume "map_of (xs @ ys @ zs) k \<noteq> None"
    then obtain h where "map_of (xs @ ys @ zs) k = Some h" by blast
    then have "(k, h) \<in> set (xs @ ys @ zs)" by (rule map_of_SomeD)
    with other that show False by blast
  qed
  have same: "build_middleware_stack self =
       build_middleware_stack (self\<lparr>exception_handlers := xs @ ys @ (k2, h2) # zs\<rparr>)"
    by (simp add: build_middleware_stack_def sp sp' debug_def)
  have lay: "layers stack =
          [(ServerErrorMiddleware, [(''handler'', PyFunc h2), (''debug'', PyBool (debug self))])]
          @ map (\<lambda>m. (cls m, options m)) (filter enabled (user_middleware self))
          @ [(ExceptionMiddleware,
              [(''handlers'', PyHandlers (xs @ ys @ zs)), (''debug'', PyBool (debug self))])]"
    if "build_middleware_stack self = Inr stack"
    using build_middleware_stack_layers[OF that] by (simp add: sp)
  have n500: "map_of (xs @ ys @ zs) (Code 500) = None"
    by (rule none) (simp add: catch_all_def)
  have nexc: "map_of (xs @ ys @ zs) (Class Exception) = None"
    by (rule none) (simp add: catch_all_def)
  show ?thesis
    by (intro conjI impI)
       (rule sp, rule n500, rule nexc, rule same, erule lay, rule build_middleware_stack_returns)
qed

theorem two_catch_all_keys_witness:
  "exception_handlers app_both =
     [] @ (Code 500, ''on_500'') # [(Code 404, ''not_found'')] @ (Class Exception, ''on_exception'') # []
   \<and> catch_all (Code 500) \<and> catch_all (Class Exception)
   \<and> distinct (map fst (exception_handlers app_both))
   \<and> build_middleware_stack app_both = Inr (middleware_stack app_both)
   \<and> layers (middleware_stack app_both) =
       [(ServerErrorMiddleware, [(''handler'', PyFunc ''on_exception''), (''debug'', PyBool False)]),
        (ExceptionMiddleware,
         [(''handlers'', PyHandlers [(Code 404, ''not_found'')]), (''debug'', PyBool False)])]"
proof -
  have tbl: "exception_handlers app_both =
     [] @ (Code 500, ''on_500'') # [(Code 404, ''not_found'')] @ (Class Exception, ''on_exception'') # []"
    by (simp add: app_both_def)
  have c: "catch_all (Code 500)" "catch_all (Class Exception)"
    by (simp_all add: catch_all_def)
  have d: "distinct (map fst (exception_handlers app_both))"
    by (simp add: app_both_def)
  have um: "user_middleware app_both = []" and dbg: "debug app_both = False"
    by (simp_all add: app_both_def debug_def)
  note at_both = two_catch_all_keys[OF tbl c d, where stack = "middleware_stack app_both"]
  note built_iff = at_both[THEN conjunct2, THEN conjunct2, THEN conjunct2, THEN conjunct2,
      THEN conjunct2]
  have "\<exists>stack. build_middleware_stack app_both = Inr stack"
    by (simp only: built_iff) (simp add: um)
  then obtain stack where st: "build_middleware_stack app_both = Inr stack" ..
  from add_exception_handler_app_both obtain s2
    where "add_exception_handler s2 (Class Exception) ''on_exception'' = Return () app_both"
    by (elim exE conjE)
  from add_exception_handler_Return(1)[OF this]
  have b: "build_middleware_stack app_both = Inr (middleware_stack app_both)" .
  note lay = at_both[THEN conjunct2, THEN conjunct2, THEN conjunct2, THEN conjunct2,
      THEN conjunct1, THEN mp, OF b]
  have l: "layers (middleware_stack app_both) =
       [(ServerErrorMiddleware, [(''handler'', PyFunc ''on_exception''), (''debug'', PyBool False)]),
        (ExceptionMiddleware,
         [(''handlers'', PyHandlers [(Code 404, ''not_found'')]), (''debug'', PyBool False)])]"
    by (simp only: lay) (simp add: um dbg)
  from tbl c d b l show ?thesis
    by (intro conjI)
qed

end
